theory Spec2Isabelle
  imports Main "HOL-Library.Sublist"
begin

text \<open>
  The mail agent of \<open>agent.py\<close>: one poll cycle (\<open>check_emails\<close>) with the functions it
  calls, \<open>parse_email_body\<close>, \<open>decode_subject\<close>, \<open>get_gemini_response\<close> and
  \<open>send_reply\<close>. The mail store, the generation service and the outbound transport are
  given as an environment that fixes how each of their calls ends; what the cycle does
  to them is returned as a list of events. An exception is a value: where the source
  catches it the model continues, where the source lets it pass the model returns it.
\<close>

section \<open>Python values\<close>

text \<open>
  A Python \<open>str\<close> is a sequence of Unicode code points and is modelled as a list of
  natural numbers; a \<open>bytes\<close> object is a list of 8-bit characters. \<open>pstr\<close> writes an
  ASCII literal as a \<open>str\<close>.
\<close>

type_synonym pystr = "nat list"
type_synonym bytes = "char list"

abbreviation pstr :: "string \<Rightarrow> pystr" where
  "pstr cs \<equiv> map of_char cs"

datatype error = TypeError | LookupError | ValueError | AttributeError | IMAPError

text \<open>\<open>str.isspace\<close> for one code point (the table of CPython's Unicode database).\<close>

definition isspace :: "nat \<Rightarrow> bool" where
  "isspace c \<longleftrightarrow>
     (9 \<le> c \<and> c \<le> 13) \<or> (28 \<le> c \<and> c \<le> 32) \<or> c = 133 \<or> c = 160 \<or> c = 5760 \<or>
     (8192 \<le> c \<and> c \<le> 8202) \<or> c = 8232 \<or> c = 8233 \<or> c = 8239 \<or> c = 8287 \<or> c = 12288"

text \<open>\<open>s.strip()\<close>: leading and trailing whitespace removed.\<close>

definition strip :: "pystr \<Rightarrow> pystr" where
  "strip s = rev (dropWhile isspace (rev (dropWhile isspace s)))"

text \<open>\<open>needle in hay\<close> on strings: \<open>needle\<close> occurs as a contiguous run.\<close>

fun contains :: "pystr \<Rightarrow> pystr \<Rightarrow> bool" where
  "contains needle [] = (needle = [])"
| "contains needle (c # cs) = (prefix needle (c # cs) \<or> contains needle cs)"

text \<open>\<open>str(x)\<close> for an optional string: \<open>str(None)\<close> is the text \<open>None\<close>.\<close>

definition str_of :: "pystr option \<Rightarrow> pystr" where
  "str_of x = (case x of None \<Rightarrow> pstr ''None'' | Some s \<Rightarrow> s)"

text \<open>Truthiness of an optional string: \<open>None\<close> and the empty string are false.\<close>

definition truthy :: "pystr option \<Rightarrow> bool" where
  "truthy x = (case x of None \<Rightarrow> False | Some s \<Rightarrow> s \<noteq> [])"

text \<open>\<open>x or d\<close> for an optional string \<open>x\<close> and a default \<open>d\<close>.\<close>

definition or_default :: "pystr option \<Rightarrow> pystr \<Rightarrow> pystr" where
  "or_default x d = (case x of None \<Rightarrow> d | Some s \<Rightarrow> if s = [] then d else s)"

section \<open>The interpreter's library\<close>

text \<open>
  Four calls of the program belong to the interpreter and its \<open>email\<close> package, so the
  functions of the program take them as a parameter:
  \<^item> \<open>decode_ignore\<close> is \<open>bytes.decode(charset, errors='ignore')\<close>, \<open>None\<close> when the call
    raises, as for a charset the interpreter does not know;
  \<^item> \<open>utf8_ignore\<close> is \<open>bytes.decode(errors='ignore')\<close>, which cannot raise;
  \<^item> \<open>header_value\<close> is the assignment \<open>msg[name] = value\<close> on an \<open>EmailMessage\<close>: the
    text the message then carries under that name, or the exception raised;
  \<^item> \<open>set_content\<close> is \<open>msg.set_content(body)\<close>: the text the message then carries as
    its body, or the exception raised.
\<close>

record pylib =
  decode_ignore :: "pystr \<Rightarrow> bytes \<Rightarrow> pystr option"
  utf8_ignore :: "bytes \<Rightarrow> pystr"
  header_value :: "string \<Rightarrow> pystr option \<Rightarrow> error + pystr"
  set_content :: "pystr \<Rightarrow> error + pystr"

section \<open>CPython\<close>

subsection \<open>Codecs\<close>

text \<open>
  CPython's UTF-8, ASCII and Latin-1 codecs under \<open>errors='ignore'\<close>: an invalid byte
  is dropped and decoding resumes at the next byte. They are looked up under the names
  listed; what the interpreter does with any other charset name is the parameter
  \<open>other\<close>.
\<close>

definition cont :: "nat \<Rightarrow> bool" where
  "cont b \<longleftrightarrow> 128 \<le> b \<and> b < 192"

definition utf8_seq :: "nat \<Rightarrow> nat list \<Rightarrow> (nat \<times> nat) option" where
  "utf8_seq b bs =
     (if 194 \<le> b \<and> b \<le> 223 then
        (case bs of
           c1 # _ \<Rightarrow> if cont c1 then Some ((b - 192) * 64 + (c1 - 128), 1) else None
         | _ \<Rightarrow> None)
      else if 224 \<le> b \<and> b \<le> 239 then
        (case bs of
           c1 # c2 # _ \<Rightarrow>
             if (if b = 224 then 160 else 128) \<le> c1 \<and> c1 \<le> (if b = 237 then 159 else 191) \<and> cont c2
             then Some (((b - 224) * 64 + (c1 - 128)) * 64 + (c2 - 128), 2) else None
         | _ \<Rightarrow> None)
      else if 240 \<le> b \<and> b \<le> 244 then
        (case bs of
           c1 # c2 # c3 # _ \<Rightarrow>
             if (if b = 240 then 144 else 128) \<le> c1 \<and> c1 \<le> (if b = 244 then 143 else 191)
                \<and> cont c2 \<and> cont c3
             then Some ((((b - 240) * 64 + (c1 - 128)) * 64 + (c2 - 128)) * 64 + (c3 - 128), 3)
             else None
         | _ \<Rightarrow> None)
      else None)"

function utf8_points :: "nat list \<Rightarrow> nat list" where
  "utf8_points [] = []"
| "utf8_points (b # bs) =
     (if b < 128 then b # utf8_points bs
      else (case utf8_seq b bs of
              Some (cp, n) \<Rightarrow> cp # utf8_points (drop n bs)
            | None \<Rightarrow> utf8_points bs))"
  by pat_completeness auto
termination
  by (relation "measure length") auto

definition py_utf8_ignore :: "bytes \<Rightarrow> pystr" where
  "py_utf8_ignore bs = utf8_points (map of_char bs)"

definition py_decode_ignore ::
  "(pystr \<Rightarrow> bytes \<Rightarrow> pystr option) \<Rightarrow> pystr \<Rightarrow> bytes \<Rightarrow> pystr option" where
  "py_decode_ignore other charset bs =
     (if charset = pstr ''utf-8'' \<or> charset = pstr ''utf8'' then Some (py_utf8_ignore bs)
      else if charset = pstr ''ascii'' \<or> charset = pstr ''us-ascii''
        then Some (filter (\<lambda>c. c < 128) (map of_char bs))
      else if charset = pstr ''latin-1'' \<or> charset = pstr ''iso-8859-1''
        then Some (map of_char bs)
      else other charset bs)"

definition known_charsets :: "pystr list" where
  "known_charsets = [pstr ''utf-8'', pstr ''utf8'', pstr ''ascii'', pstr ''us-ascii'',
                     pstr ''latin-1'', pstr ''iso-8859-1'']"

subsection \<open>Headers and body of an \<open>EmailMessage\<close>\<close>

text \<open>
  Assigning a header raises \<open>ValueError\<close> when the value is a string of more than one
  line (\<open>len(value.splitlines()) > 1\<close>); assigning \<open>None\<close> stores the empty text. A
  value of one line is parsed by the header's class and stored as that class reads it,
  which is the parameter \<open>reading\<close>.
\<close>

definition linebreak :: "nat \<Rightarrow> bool" where
  "linebreak c \<longleftrightarrow> (10 \<le> c \<and> c \<le> 13) \<or> (28 \<le> c \<and> c \<le> 30) \<or> c = 133 \<or> c = 8232 \<or> c = 8233"

fun multiline :: "pystr \<Rightarrow> bool" where
  "multiline (c # d # r) =
     (if c = 13 \<and> d = 10 then r \<noteq> [] else if linebreak c then True else multiline (d # r))"
| "multiline s = False"

definition py_header ::
  "(string \<Rightarrow> pystr \<Rightarrow> error + pystr) \<Rightarrow> string \<Rightarrow> pystr option \<Rightarrow> error + pystr" where
  "py_header reading name v =
     (case v of
        None \<Rightarrow> Inr []
      | Some s \<Rightarrow> if multiline s then Inl ValueError else reading name s)"

text \<open>
  \<open>set_content\<close> on a string: the text is encoded as UTF-8, which raises
  \<open>UnicodeEncodeError\<close> (a \<open>ValueError\<close>) on a surrogate code point; its lines are
  joined by line feeds and a line feed ends the last one.
\<close>

fun unix_lines :: "pystr \<Rightarrow> pystr" where
  "unix_lines (c # d # r) =
     (if c = 13 \<and> d = 10 then 10 # unix_lines r
      else if c = 13 then 10 # unix_lines (d # r)
      else c # unix_lines (d # r))"
| "unix_lines [c] = [if c = 13 then 10 else c]"
| "unix_lines [] = []"

definition py_set_content :: "pystr \<Rightarrow> error + pystr" where
  "py_set_content body =
     (if list_ex (\<lambda>c. 55296 \<le> c \<and> c \<le> 57343) body then Inl ValueError
      else Inr (if unix_lines body \<noteq> [] \<and> last (unix_lines body) = 10 then unix_lines body
                else unix_lines body @ [10]))"

definition cpython ::
  "(pystr \<Rightarrow> bytes \<Rightarrow> pystr option) \<Rightarrow> (string \<Rightarrow> pystr \<Rightarrow> error + pystr) \<Rightarrow> pylib" where
  "cpython other reading =
     \<lparr>decode_ignore = py_decode_ignore other, utf8_ignore = py_utf8_ignore,
      header_value = py_header reading, set_content = py_set_content\<rparr>"

section \<open>Messages\<close>

text \<open>
  A parsed message as the program reads it through the \<open>email\<close> package. For each
  MIME part: \<open>get_content_type()\<close>, \<open>get("Content-Disposition")\<close> and
  \<open>get_content_charset()\<close>. A leaf carries the bytes of \<open>get_payload(decode=True)\<close>,
  a container (\<open>is_multipart()\<close>) its sub-parts.
\<close>

record part_headers =
  content_type :: pystr
  content_disposition :: "pystr option"
  content_charset :: "pystr option"

datatype part = Leaf part_headers bytes | Multi part_headers "part list"

fun headers :: "part \<Rightarrow> part_headers" where
  "headers (Leaf h b) = h"
| "headers (Multi h ps) = h"

fun is_multipart :: "part \<Rightarrow> bool" where
  "is_multipart (Leaf h b) = False"
| "is_multipart (Multi h ps) = True"

text \<open>\<open>get_payload(decode=True)\<close> is \<open>None\<close> on a container.\<close>

fun get_payload :: "part \<Rightarrow> bytes option" where
  "get_payload (Leaf h b) = Some b"
| "get_payload (Multi h ps) = None"

text \<open>\<open>walk()\<close>: the part itself, then the walk of each sub-part, in document order.\<close>

fun walk :: "part \<Rightarrow> part list" where
  "walk (Leaf h b) = [Leaf h b]"
| "walk (Multi h ps) = Multi h ps # concat (map walk ps)"

text \<open>
  The value of the Subject header as \<open>decode_header\<close> sees it: a header without
  encoded words is returned whole, as a string and without a charset; a header with
  encoded words is returned as byte chunks, each with its charset or \<open>None\<close>.
\<close>

datatype raw_header = Plain pystr | Encoded "(bytes \<times> pystr option) list"

record message =
  from_addr :: pystr
  subject :: "raw_header option"
  message_id :: "pystr option"
  mime :: part

text \<open>
  \<open>from_addr\<close> is \<open>parseaddr(msg['From'])[1]\<close>; \<open>subject\<close> and \<open>message_id\<close> are
  \<open>msg['Subject']\<close> and \<open>msg['Message-ID']\<close>, \<open>None\<close> when the header is missing.
\<close>

section \<open>Body extraction\<close>

text \<open>The test of line 70 on one part.\<close>

definition plain_non_attachment :: "part \<Rightarrow> bool" where
  "plain_non_attachment p \<longleftrightarrow>
     content_type (headers p) = pstr ''text/plain'' \<and>
     \<not> contains (pstr ''attachment'') (str_of (content_disposition (headers p)))"

text \<open>
  Lines 71 to 78: decode with the declared charset or UTF-8; when that raises, decode as
  UTF-8. On a container the payload is \<open>None\<close> and both attempts raise.
\<close>

definition decode_part :: "pylib \<Rightarrow> part \<Rightarrow> error + pystr" where
  "decode_part L p =
     (case get_payload p of
        None \<Rightarrow> Inl AttributeError
      | Some b \<Rightarrow>
          (case decode_ignore L (or_default (content_charset (headers p)) (pstr ''utf-8'')) b of
             Some t \<Rightarrow> Inr t
           | None \<Rightarrow> Inr (utf8_ignore L b)))"

text \<open>The loop of lines 65 to 78 over the parts still to visit.\<close>

fun scan_parts :: "pylib \<Rightarrow> part list \<Rightarrow> error + pystr option" where
  "scan_parts L [] = Inr None"
| "scan_parts L (p # ps) =
     (if plain_non_attachment p
      then (case decode_part L p of Inl e \<Rightarrow> Inl e | Inr t \<Rightarrow> Inr (Some t))
      else scan_parts L ps)"

definition parse_email_body :: "pylib \<Rightarrow> part \<Rightarrow> error + pystr option" where
  "parse_email_body L msg =
     (if is_multipart msg then scan_parts L (walk msg)
      else (case get_payload msg of
              None \<Rightarrow> Inr None
            | Some b \<Rightarrow>
                Inr (decode_ignore L (or_default (content_charset (headers msg)) (pstr ''utf-8'')) b)))"

section \<open>Subject decoding\<close>

datatype chunk = StrChunk pystr | BytesChunk bytes

definition decode_header :: "raw_header option \<Rightarrow> error + (chunk \<times> pystr option) list" where
  "decode_header h =
     (case h of
        None \<Rightarrow> Inl TypeError
      | Some (Plain s) \<Rightarrow> Inr [(StrChunk s, None)]
      | Some (Encoded ws) \<Rightarrow> Inr (map (\<lambda>(b, cs). (BytesChunk b, cs)) ws))"

text \<open>The loop of lines 119 to 123, with \<open>subject_str\<close> as accumulator.\<close>

fun join_parts :: "pylib \<Rightarrow> (chunk \<times> pystr option) list \<Rightarrow> pystr \<Rightarrow> error + pystr" where
  "join_parts L [] subject_str = Inr subject_str"
| "join_parts L ((StrChunk s, charset) # rest) subject_str =
     join_parts L rest (subject_str @ s)"
| "join_parts L ((BytesChunk b, charset) # rest) subject_str =
     (case decode_ignore L (or_default charset (pstr ''utf-8'')) b of
        None \<Rightarrow> Inl LookupError
      | Some t \<Rightarrow> join_parts L rest (subject_str @ t))"

definition decode_subject :: "pylib \<Rightarrow> raw_header option \<Rightarrow> error + pystr" where
  "decode_subject L subj =
     (case decode_header subj of
        Inl e \<Rightarrow> Inl e
      | Inr decoded_parts \<Rightarrow>
          (case join_parts L decoded_parts [] of
             Inl e \<Rightarrow> Inl e
           | Inr subject_str \<Rightarrow>
               Inr (if strip subject_str = [] then pstr ''Brak tematu'' else strip subject_str)))"

section \<open>Generation client\<close>

text \<open>
  How lines 45 to 54 end for a prompt: \<open>GenRaises\<close> is any exception raised inside
  the \<open>try\<close> block, by the call or by reading \<open>response.parts\<close> or \<open>response.text\<close>;
  \<open>GenNoParts\<close> is a response whose \<open>parts\<close> are read and empty; \<open>GenText\<close> is a
  response with parts whose text is read.
\<close>

datatype gen_result = GenRaises | GenNoParts | GenText pystr

definition blocked_placeholder :: pystr where
  "blocked_placeholder =
     pstr ''Niestety, nie mog'' @ [281] @ pstr '' wygenerowa'' @ [263] @
     pstr '' odpowiedzi na ten temat (odpowied'' @ [378] @ pstr '' zablokowana).''"

definition get_gemini_response :: "(pystr \<Rightarrow> gen_result) \<Rightarrow> pystr \<Rightarrow> pystr option" where
  "get_gemini_response service prompt =
     (case service prompt of
        GenRaises \<Rightarrow> None
      | GenNoParts \<Rightarrow> Some blocked_placeholder
      | GenText t \<Rightarrow> Some t)"

section \<open>Reply composition and sending\<close>

record config =
  EMAIL_ADDRESS :: pystr

text \<open>The outbound message: the headers and the body it carries.\<close>

record outbound =
  hdr_from :: pystr
  hdr_to :: pystr
  hdr_subject :: pystr
  hdr_in_reply_to :: pystr
  hdr_references :: pystr
  content :: pystr

text \<open>
  Lines 95 to 104: the message built by \<open>send_reply\<close>. The first assignment that
  raises ends it.
\<close>

definition compose ::
  "config \<Rightarrow> pylib \<Rightarrow> pystr \<Rightarrow> pystr \<Rightarrow> pystr option \<Rightarrow> pystr \<Rightarrow> error + outbound" where
  "compose C L to_address subj original_msg_id body =
     (case header_value L ''From'' (Some (EMAIL_ADDRESS C)) of Inl e \<Rightarrow> Inl e | Inr f \<Rightarrow>
     (case header_value L ''To'' (Some to_address) of Inl e \<Rightarrow> Inl e | Inr t \<Rightarrow>
     (case header_value L ''Subject'' (Some (pstr ''Re: '' @ subj)) of Inl e \<Rightarrow> Inl e | Inr s \<Rightarrow>
     (case header_value L ''In-Reply-To'' original_msg_id of Inl e \<Rightarrow> Inl e | Inr r \<Rightarrow>
     (case header_value L ''References'' original_msg_id of Inl e \<Rightarrow> Inl e | Inr x \<Rightarrow>
     (case set_content L body of Inl e \<Rightarrow> Inl e | Inr c \<Rightarrow>
        Inr \<lparr>hdr_from = f, hdr_to = t, hdr_subject = s, hdr_in_reply_to = r,
             hdr_references = x, content = c\<rparr>))))))"

section \<open>The poll cycle\<close>

type_synonym mail_id = nat

datatype fetch_result = FetchRaises | FetchNotOK | FetchNoData | FetchOK message

datatype search_result = SearchRaises | SearchNotOK | SearchOK "mail_id list"

text \<open>
  The outside world of one cycle. \<open>imap_login\<close>: connecting, logging in and selecting
  the inbox complete; \<open>imap_search\<close>: the UNSEEN search; \<open>imap_fetch\<close>: the fetch of
  one message (\<open>FetchNoData\<close> is status OK with the data \<open>[None]\<close>); \<open>imap_store\<close>: the
  store of the Seen flag completes; \<open>generate_content\<close>: the generation service while
  the given message is processed; \<open>smtp_send\<close>: connecting, logging in and
  \<open>send_message\<close> complete for the given outbound message.
\<close>

record env =
  imap_login :: bool
  imap_search :: search_result
  imap_fetch :: "mail_id \<Rightarrow> fetch_result"
  imap_store :: "mail_id \<Rightarrow> bool"
  generate_content :: "mail_id \<Rightarrow> pystr \<Rightarrow> gen_result"
  smtp_send :: "mail_id \<Rightarrow> outbound \<Rightarrow> bool"

text \<open>
  What a cycle does, each event with the id of the message being processed: a call of
  \<open>get_gemini_response\<close> with its prompt, a call of \<open>send_reply\<close> with its arguments,
  a message delivered over SMTP, a message flagged as seen.
\<close>

datatype event =
    GenerateCall mail_id pystr
  | ReplyCall mail_id pystr pystr "pystr option" pystr
  | SmtpSent mail_id outbound
  | Seen mail_id

text \<open>
  A run is the list of events and the exception that left the code, if any.
\<close>

type_synonym run = "event list \<times> error option"

definition send_reply ::
  "config \<Rightarrow> pylib \<Rightarrow> env \<Rightarrow> mail_id \<Rightarrow> pystr \<Rightarrow> pystr \<Rightarrow> pystr option \<Rightarrow> pystr \<Rightarrow> run" where
  "send_reply C L E i to_address subj original_msg_id body =
     (case compose C L to_address subj original_msg_id body of
        Inl e \<Rightarrow> ([ReplyCall i to_address subj original_msg_id body], Some e)
      | Inr msg \<Rightarrow>
          (if smtp_send E i msg
           then ([ReplyCall i to_address subj original_msg_id body, SmtpSent i msg], None)
           else ([ReplyCall i to_address subj original_msg_id body], None)))"

text \<open>Lines 173 to 190: a message that is not from the agent itself.\<close>

definition answer_mail :: "config \<Rightarrow> pylib \<Rightarrow> env \<Rightarrow> mail_id \<Rightarrow> message \<Rightarrow> pystr \<Rightarrow> run" where
  "answer_mail C L E i msg subj =
     (case parse_email_body L (mime msg) of
        Inl e \<Rightarrow> ([], Some e)
      | Inr prompt \<Rightarrow>
          (case prompt of
             None \<Rightarrow> ([], None)
           | Some p \<Rightarrow>
               if p = [] then ([], None)
               else
                 (case get_gemini_response (generate_content E i) (strip p) of
                    None \<Rightarrow> ([GenerateCall i (strip p)], None)
                  | Some gemini_answer \<Rightarrow>
                      if gemini_answer = [] then ([GenerateCall i (strip p)], None)
                      else
                        (case send_reply C L E i (from_addr msg) subj (message_id msg) gemini_answer of
                           (evs, r) \<Rightarrow> (GenerateCall i (strip p) # evs, r)))))"

text \<open>Lines 152 to 194: the body of the loop for one mail id.\<close>

definition handle_mail :: "config \<Rightarrow> pylib \<Rightarrow> env \<Rightarrow> mail_id \<Rightarrow> run" where
  "handle_mail C L E i =
     (case imap_fetch E i of
        FetchRaises \<Rightarrow> ([], Some IMAPError)
      | FetchNotOK \<Rightarrow> ([], None)
      | FetchNoData \<Rightarrow> ([], Some TypeError)
      | FetchOK msg \<Rightarrow>
          (case decode_subject L (subject msg) of
             Inl e \<Rightarrow> ([], Some e)
           | Inr subj \<Rightarrow>
               (case (if from_addr msg = EMAIL_ADDRESS C then ([], None)
                      else answer_mail C L E i msg subj) of
                  (evs, Some e) \<Rightarrow> (evs, Some e)
                | (evs, None) \<Rightarrow>
                    if imap_store E i then (evs @ [Seen i], None)
                    else (evs, Some IMAPError))))"

text \<open>The loop of line 151: an exception ends it.\<close>

fun for_mail_ids :: "config \<Rightarrow> pylib \<Rightarrow> env \<Rightarrow> mail_id list \<Rightarrow> run" where
  "for_mail_ids C L E [] = ([], None)"
| "for_mail_ids C L E (i # ids) =
     (case handle_mail C L E i of
        (evs, Some e) \<Rightarrow> (evs, Some e)
      | (evs, None) \<Rightarrow> (case for_mail_ids C L E ids of (evs', r) \<Rightarrow> (evs @ evs', r)))"

text \<open>
  \<open>check_emails\<close>: the second component is the exception caught and logged at line 198.
\<close>

definition check_emails :: "config \<Rightarrow> pylib \<Rightarrow> env \<Rightarrow> run" where
  "check_emails C L E =
     (if \<not> imap_login E then ([], Some IMAPError)
      else (case imap_search E of
              SearchRaises \<Rightarrow> ([], Some IMAPError)
            | SearchNotOK \<Rightarrow> ([], None)
            | SearchOK mail_ids \<Rightarrow> for_mail_ids C L E mail_ids))"

section \<open>Auxiliary notions for the properties\<close>

text \<open>The message an event belongs to.\<close>

fun mail_of :: "event \<Rightarrow> mail_id" where
  "mail_of (GenerateCall i p) = i"
| "mail_of (ReplyCall i t s m b) = i"
| "mail_of (SmtpSent i out) = i"
| "mail_of (Seen i) = i"

text \<open>Two addresses that differ at most in the case of ASCII letters.\<close>

definition lower :: "nat \<Rightarrow> nat" where
  "lower c = (if 65 \<le> c \<and> c \<le> 90 then c + 32 else c)"


text \<open>
  The claim's words for a part marked as an attachment: its disposition type, the text
  of the Content-Disposition header before the first semicolon, is \<open>attachment\<close> in
  any letter case. This is what \<open>get_content_disposition()\<close> of the \<open>email\<close> package
  returns; the program does not call it.
\<close>

definition disposition_type :: "pystr option \<Rightarrow> pystr option" where
  "disposition_type v =
     (case v of
        None \<Rightarrow> None
      | Some s \<Rightarrow> Some (map lower (strip (takeWhile (\<lambda>c. c \<noteq> 59) s))))"

definition marked_as_attachment :: "part \<Rightarrow> bool" where
  "marked_as_attachment p \<longleftrightarrow>
     disposition_type (content_disposition (headers p)) = Some (pstr ''attachment'')"

section \<open>Example inputs\<close>

text \<open>
  The interpreter of the examples. The only charset name the examples use beyond
  those above is \<open>x-unknown\<close>, which CPython does not know, so the examples need no
  further codec. The headers are stored as CPython 3.11 stores the values the examples
  assign: it changes two of them, a subject with an encoded word, which is stored
  decoded, and an address that does not parse, which is stored as \<open><>\<close>.
\<close>

definition no_other_codecs :: "pystr \<Rightarrow> bytes \<Rightarrow> pystr option" where
  "no_other_codecs charset bs = None"

definition example_readings :: "string \<Rightarrow> pystr \<Rightarrow> error + pystr" where
  "example_readings name s =
     (if name = ''Subject'' \<and> s = pstr ''Re: =?utf-8?q?hi?='' then Inr (pstr ''Re: hi'')
      else if name = ''To'' \<and> s = pstr ''bob@example.org.'' then Inr (pstr ''<>'')
      else Inr s)"

definition py_lib :: pylib where
  "py_lib = cpython no_other_codecs example_readings"

definition agent_cfg :: config where
  "agent_cfg = \<lparr>EMAIL_ADDRESS = pstr ''agent@example.com''\<rparr>"

definition plain_hdr :: part_headers where
  "plain_hdr = \<lparr>content_type = pstr ''text/plain'', content_disposition = None,
                 content_charset = None\<rparr>"

definition html_hdr :: part_headers where
  "html_hdr = \<lparr>content_type = pstr ''text/html'', content_disposition = None,
                content_charset = None\<rparr>"

definition attached_hdr :: part_headers where
  "attached_hdr = \<lparr>content_type = pstr ''text/plain'',
                    content_disposition = Some (pstr ''attachment; filename=notes.txt''),
                    content_charset = None\<rparr>"

definition capital_hdr :: part_headers where
  "capital_hdr = \<lparr>content_type = pstr ''text/plain'',
                   content_disposition = Some (pstr ''ATTACHMENT; filename=notes.txt''),
                   content_charset = None\<rparr>"

definition inline_hdr :: part_headers where
  "inline_hdr = \<lparr>content_type = pstr ''text/plain'',
                  content_disposition = Some (pstr ''inline; filename=attachment.txt''),
                  content_charset = None\<rparr>"

definition unknown_hdr :: part_headers where
  "unknown_hdr = \<lparr>content_type = pstr ''text/plain'', content_disposition = None,
                   content_charset = Some (pstr ''x-unknown'')\<rparr>"

definition mixed_hdr :: part_headers where
  "mixed_hdr = \<lparr>content_type = pstr ''multipart/mixed'', content_disposition = None,
                 content_charset = None\<rparr>"

text \<open>A well-formed question from another address.\<close>

definition mail_ok :: message where
  "mail_ok = \<lparr>from_addr = pstr ''bob@example.org'', subject = Some (Plain (pstr ''Sum'')),
               message_id = Some (pstr ''<abc@host>''),
               mime = Leaf plain_hdr ''What is 2+2?''\<rparr>"

text \<open>The same question in a message that has no Subject header.\<close>

definition mail_without_subject :: message where
  "mail_without_subject = mail_ok\<lparr>subject := None\<rparr>"

text \<open>A message sent from the agent's own address.\<close>

definition mail_from_self :: message where
  "mail_from_self = mail_ok\<lparr>from_addr := pstr ''agent@example.com''\<rparr>"

text \<open>
  A message from the agent's address written with capitals, with an HTML part only.
\<close>

definition mail_html_only :: message where
  "mail_html_only = mail_ok\<lparr>from_addr := pstr ''Agent@Example.com'',
                             mime := Multi mixed_hdr [Leaf html_hdr ''<b>2+2?</b>'']\<rparr>"

definition mail_capitals :: message where
  "mail_capitals = mail_ok\<lparr>from_addr := pstr ''Agent@Example.com''\<rparr>"

definition alternative_hdr :: part_headers where
  "alternative_hdr = \<lparr>content_type = pstr ''multipart/alternative'',
                       content_disposition = None, content_charset = None\<rparr>"

text \<open>
  An attached text file, then the message in two alternatives, HTML first.
\<close>

definition nested_parts :: part where
  "nested_parts = Multi mixed_hdr
     [Leaf attached_hdr ''notes'',
      Multi alternative_hdr [Leaf html_hdr ''<b>Hello</b>'', Leaf plain_hdr ''Hello'']]"

text \<open>An HTML part and an attached text file, and no text of the message.\<close>

definition no_plain_parts :: part where
  "no_plain_parts = Multi mixed_hdr [Leaf html_hdr ''<b>Hello</b>'', Leaf attached_hdr ''notes'']"

text \<open>An attached text file whose disposition is written in capitals, then the text.\<close>

definition capital_first :: part where
  "capital_first = Multi mixed_hdr [Leaf capital_hdr ''notes'', Leaf plain_hdr ''Hello'']"

text \<open>The text as an inline part with a file name, then a second text.\<close>

definition inline_first :: part where
  "inline_first = Multi mixed_hdr [Leaf inline_hdr ''Hello'', Leaf plain_hdr ''Later'']"

text \<open>The question under a subject folded over two lines.\<close>

definition mail_folded :: message where
  "mail_folded = mail_ok\<lparr>subject := Some (Plain (pstr ''hello'' @ [13, 10] @ pstr '' world''))\<rparr>"

text \<open>
  The question under the subject \<open>=?utf-8?b?PT91dGYtOD9xP2hpPz0=?=\<close>, whose encoded
  word is the text of another encoded word.
\<close>

definition mail_encoded_twice :: message where
  "mail_encoded_twice = mail_ok\<lparr>subject := Some (Encoded [(''=?utf-8?q?hi?='', Some (pstr ''utf-8''))])\<rparr>"

text \<open>
  A mailbox holding the given unseen messages under the ids 1, 2, ...; every store and
  every delivery completes, and the generation service behaves as \<open>service\<close>.
\<close>

definition inbox :: "message list \<Rightarrow> (pystr \<Rightarrow> gen_result) \<Rightarrow> env" where
  "inbox ms service =
     \<lparr>imap_login = True,
      imap_search = SearchOK (map Suc [0..<length ms]),
      imap_fetch = (\<lambda>i. if 1 \<le> i \<and> i \<le> length ms then FetchOK (ms ! (i - 1)) else FetchNotOK),
      imap_store = (\<lambda>i. True),
      generate_content = (\<lambda>i. service),
      smtp_send = (\<lambda>i out. True)\<rparr>"

definition answers_four :: "pystr \<Rightarrow> gen_result" where
  "answers_four prompt = GenText (pstr ''4'')"

definition always_blocked :: "pystr \<Rightarrow> gen_result" where
  "always_blocked prompt = GenNoParts"

definition always_failing :: "pystr \<Rightarrow> gen_result" where
  "always_failing prompt = GenRaises"

text \<open>The question followed by CR LF, as the lines of a fetched body end.\<close>

definition mail_newline :: message where
  "mail_newline =
     mail_ok\<lparr>mime := Leaf plain_hdr [CHR ''2'', CHR ''+'', CHR ''2'', CHR ''?'', CHR 0x0D, CHR 0x0A]\<rparr>"

definition reply_four :: outbound where
  "reply_four = \<lparr>hdr_from = pstr ''agent@example.com'', hdr_to = pstr ''bob@example.org'',
                  hdr_subject = pstr ''Re: Sum'', hdr_in_reply_to = pstr ''<abc@host>'',
                  hdr_references = pstr ''<abc@host>'', content = pstr ''4'' @ [10]\<rparr>"

definition reply_blocked :: outbound where
  "reply_blocked = reply_four\<lparr>content := blocked_placeholder @ [10]\<rparr>"

text \<open>The same environment with an outbound transport that refuses every delivery.\<close>

definition smtp_down :: "env \<Rightarrow> env" where
  "smtp_down E = E\<lparr>smtp_send := (\<lambda>i out. False)\<rparr>"

section \<open>Evaluation and structure of a cycle\<close>

lemmas body_defs = parse_email_body_def plain_non_attachment_def str_of_def decode_part_def
  or_default_def

lemmas codec_defs = py_lib_def cpython_def py_decode_ignore_def py_utf8_ignore_def utf8_seq_def
  cont_def no_other_codecs_def py_header_def py_set_content_def linebreak_def
  example_readings_def

lemmas subject_defs = decode_subject_def decode_header_def strip_def isspace_def

lemmas cycle_defs = check_emails_def handle_mail_def answer_mail_def send_reply_def compose_def
  get_gemini_response_def

lemmas example_defs = agent_cfg_def plain_hdr_def html_hdr_def attached_hdr_def mixed_hdr_def
  mail_ok_def mail_without_subject_def mail_from_self_def mail_html_only_def mail_capitals_def
  alternative_hdr_def nested_parts_def no_plain_parts_def inbox_def answers_four_def
  reply_four_def always_blocked_def always_failing_def mail_newline_def capital_hdr_def
  inline_hdr_def unknown_hdr_def capital_first_def inline_first_def mail_folded_def
  mail_encoded_twice_def reply_blocked_def smtp_down_def

subsection \<open>Stripping\<close>

lemma strip_self:
  assumes "s \<noteq> []" and "\<not> isspace (hd s)" and "\<not> isspace (last s)"
  shows "strip s = s"
proof -
  from assms have a: "dropWhile isspace s = s" by (cases s) auto
  from assms have "rev s \<noteq> []" and "\<not> isspace (hd (rev s))" by (simp_all add: hd_rev)
  then have "dropWhile isspace (rev s) = rev s" by (cases "rev s") auto
  with a show ?thesis by (simp add: strip_def)
qed

lemma strip_ends:
  assumes "strip s \<noteq> []"
  shows "\<not> isspace (hd (strip s)) \<and> \<not> isspace (last (strip s))"
proof -
  define t where "t = dropWhile isspace s"
  define u where "u = dropWhile isspace (rev t)"
  have su: "strip s = rev u" by (simp add: strip_def t_def u_def)
  with assms have ne: "u \<noteq> []" by simp
  then have "\<not> isspace (hd u)" unfolding u_def by (rule hd_dropWhile)
  with ne have l: "\<not> isspace (last (rev u))" by (simp add: last_rev)
  have "rev t = takeWhile isspace (rev t) @ u" by (simp add: u_def)
  with ne have "last u = last (rev t)" by (metis last_appendR)
  moreover from ne have tn: "t \<noteq> []" by (auto simp: u_def)
  ultimately have "last u = hd t" by (simp add: last_rev)
  moreover from tn have "\<not> isspace (hd t)" unfolding t_def by (rule hd_dropWhile)
  ultimately have "\<not> isspace (hd (rev u))" using ne by (simp add: hd_rev)
  with l show ?thesis by (simp add: su)
qed

lemma strip_idem: "strip (strip s) = strip s"
proof (cases "strip s = []")
  case True
  have "strip [] = []" by (simp add: strip_def)
  with True show ?thesis by simp
next
  case False
  with strip_ends[OF False] show ?thesis by (simp add: strip_self)
qed

subsection \<open>Lenient decoding\<close>

text \<open>
  A UTF-8 sequence decodes to a code point outside ASCII and consumes no ASCII byte, so
  decoding keeps the ASCII bytes of its input, in their order, and drops or combines
  only the others.
\<close>

lemma utf8_seq_Some:
  assumes "utf8_seq b bs = Some (cp, n)"
  shows "128 \<le> cp \<and> filter (\<lambda>c. c < 128) (drop n bs) = filter (\<lambda>c. c < 128) bs"
proof -
  consider (two) "194 \<le> b \<and> b \<le> 223" | (three) "224 \<le> b \<and> b \<le> 239"
    | (four) "240 \<le> b \<and> b \<le> 244" | (none) "b < 194 \<or> 244 < b" by linarith
  then show ?thesis
  proof cases
    case two
    with assms show ?thesis
      by (auto simp: utf8_seq_def cont_def split: list.splits if_splits)
  next
    case three
    with assms show ?thesis
      by (auto simp: utf8_seq_def cont_def split: list.splits if_splits)
  next
    case four
    with assms show ?thesis
      by (auto simp: utf8_seq_def cont_def split: list.splits if_splits)
  next
    case none
    with assms show ?thesis by (auto simp: utf8_seq_def)
  qed
qed

lemma utf8_points_ascii:
  "filter (\<lambda>c. c < 128) (utf8_points bs) = filter (\<lambda>c. c < 128) bs"
proof (induction bs rule: utf8_points.induct)
  case 1
  then show ?case by simp
next
  case (2 b bs)
  show ?case
  proof (cases "b < 128")
    case True
    with 2 show ?thesis by simp
  next
    case False
    show ?thesis
    proof (cases "utf8_seq b bs")
      case None
      with False 2 show ?thesis by simp
    next
      case (Some a)
      obtain cp n where a: "a = (cp, n)" by (cases a)
      from Some a have s: "utf8_seq b bs = Some (cp, n)" by simp
      from 2(3)[OF False Some] a
      have "filter (\<lambda>c. c < 128) (utf8_points (drop n bs)) = filter (\<lambda>c. c < 128) (drop n bs)"
        by simp
      with utf8_seq_Some[OF s] s False show ?thesis by simp
    qed
  qed
qed

lemma utf8_points_id: "\<forall>c \<in> set bs. c < 128 \<Longrightarrow> utf8_points bs = bs"
  by (induction bs) auto

lemma py_decode_known:
  assumes "cs \<in> set known_charsets"
  shows "\<exists>t. py_decode_ignore other cs b = Some t \<and>
           filter (\<lambda>c. c < 128) t = filter (\<lambda>c. c < 128) (map of_char b) \<and>
           ((\<forall>c \<in> set b. of_char c < (128::nat)) \<longrightarrow> t = map of_char b)"
proof -
  have u: "(\<forall>c \<in> set b. of_char c < (128::nat)) \<longrightarrow> py_utf8_ignore b = map of_char b"
    by (simp add: py_utf8_ignore_def utf8_points_id)
  have a: "(\<forall>c \<in> set b. of_char c < (128::nat)) \<longrightarrow>
             filter (\<lambda>c. c < (128::nat)) (map of_char b) = map of_char b"
    by (auto simp: filter_id_conv)
  from assms consider "py_decode_ignore other cs b = Some (py_utf8_ignore b)"
    | "py_decode_ignore other cs b = Some (filter (\<lambda>c. c < 128) (map of_char b))"
    | "py_decode_ignore other cs b = Some (map of_char b)"
    by (auto simp: known_charsets_def py_decode_ignore_def)
  then show ?thesis
  proof cases
    case 1
    with u show ?thesis by (simp add: py_utf8_ignore_def utf8_points_ascii)
  next
    case 2
    with a show ?thesis by simp
  next
    case 3
    then show ?thesis by simp
  qed
qed

subsection \<open>Events of an iteration and of the loop\<close>

text \<open>Every event of an iteration carries the id of that iteration.\<close>

lemma send_reply_tagged:
  "send_reply C L E i t s m b = (evs, r) \<Longrightarrow> ev \<in> set evs \<Longrightarrow> mail_of ev = i"
  by (auto simp: send_reply_def split: sum.splits if_splits)

lemma answer_mail_tagged:
  "answer_mail C L E i msg subj = (evs, r) \<Longrightarrow> ev \<in> set evs \<Longrightarrow> mail_of ev = i"
  by (auto simp: answer_mail_def split: sum.splits option.splits if_splits prod.splits
           dest: send_reply_tagged)

lemma handle_mail_tagged:
  "handle_mail C L E i = (evs, r) \<Longrightarrow> ev \<in> set evs \<Longrightarrow> mail_of ev = i"
  by (auto simp: handle_mail_def
           split: fetch_result.splits sum.splits option.splits if_splits prod.splits
           dest: answer_mail_tagged)

text \<open>Every event of the loop is an event of one of its iterations.\<close>

lemma for_mail_ids_events:
  "for_mail_ids C L E ids = (evs, r) \<Longrightarrow> ev \<in> set evs \<Longrightarrow>
     \<exists>i \<in> set ids. ev \<in> set (fst (handle_mail C L E i))"
proof (induction ids arbitrary: evs r)
  case Nil
  then show ?case by simp
next
  case (Cons i ids)
  obtain e1 r1 where h: "handle_mail C L E i = (e1, r1)"
    by (cases "handle_mail C L E i")
  show ?case
  proof (cases r1)
    case (Some e)
    with h Cons.prems show ?thesis by auto
  next
    case None
    obtain e2 r2 where t: "for_mail_ids C L E ids = (e2, r2)"
      by (cases "for_mail_ids C L E ids")
    from h None t Cons.prems have "evs = e1 @ e2" by simp
    with Cons.prems(2) have "ev \<in> set e1 \<or> ev \<in> set e2" by simp
    then show ?thesis
    proof
      assume "ev \<in> set e1"
      with h show ?thesis by auto
    next
      assume "ev \<in> set e2"
      from Cons.IH[OF t this] show ?thesis by auto
    qed
  qed
qed

lemma check_emails_events:
  assumes "ev \<in> set (fst (check_emails C L E))"
  shows "ev \<in> set (fst (handle_mail C L E (mail_of ev)))"
proof -
  from assms obtain ids where ev: "ev \<in> set (fst (for_mail_ids C L E ids))"
    by (auto simp: check_emails_def split: if_splits search_result.splits)
  obtain evs r where f: "for_mail_ids C L E ids = (evs, r)"
    by (cases "for_mail_ids C L E ids")
  with ev have "ev \<in> set evs" by simp
  from for_mail_ids_events[OF f this]
  obtain i where i: "ev \<in> set (fst (handle_mail C L E i))" by auto
  obtain e1 r1 where h: "handle_mail C L E i = (e1, r1)"
    by (cases "handle_mail C L E i")
  with i have "mail_of ev = i" using handle_mail_tagged[OF h] by simp
  with i show ?thesis by simp
qed

lemma handle_mail_self:
  assumes "imap_fetch E i = FetchOK msg" and "from_addr msg = EMAIL_ADDRESS C"
  shows "set (fst (handle_mail C L E i)) \<subseteq> {Seen i}"
  using assms by (auto simp: handle_mail_def split: sum.splits if_splits)











lemma send_reply_no_generate:
  "GenerateCall j q \<notin> set (fst (send_reply C L E i t s m b))"
  by (simp add: send_reply_def split: sum.splits)

lemma answer_mail_generate:
  assumes "answer_mail C L E i msg subj = (evs, r)" and "GenerateCall j q \<in> set evs"
  shows "\<exists>p. parse_email_body L (mime msg) = Inr (Some p) \<and> p \<noteq> [] \<and> q = strip p"
proof (cases "parse_email_body L (mime msg)")
  case (Inl e)
  with assms show ?thesis by (simp add: answer_mail_def)
next
  case (Inr prompt)
  show ?thesis
  proof (cases prompt)
    case None
    with Inr assms show ?thesis by (simp add: answer_mail_def)
  next
    case (Some p)
    show ?thesis
    proof (cases "p = []")
      case True
      with Inr Some assms show ?thesis by (simp add: answer_mail_def)
    next
      case False
      have "GenerateCall j q \<notin>
              set (fst (send_reply C L E i (from_addr msg) subj (message_id msg) a))" for a
        by (rule send_reply_no_generate)
      with Inr Some False assms have "q = strip p"
        by (auto simp: answer_mail_def split: option.splits if_splits prod.splits)
          (metis fst_conv)
      with Inr Some False show ?thesis by simp
    qed
  qed
qed

lemma handle_mail_generate:
  assumes "GenerateCall j q \<in> set (fst (handle_mail C L E i))"
  shows "\<exists>msg p. imap_fetch E i = FetchOK msg \<and> from_addr msg \<noteq> EMAIL_ADDRESS C \<and>
           parse_email_body L (mime msg) = Inr (Some p) \<and> p \<noteq> [] \<and> q = strip p"
proof -
  from assms obtain msg subj evs r where f: "imap_fetch E i = FetchOK msg"
      and n: "from_addr msg \<noteq> EMAIL_ADDRESS C"
      and a: "answer_mail C L E i msg subj = (evs, r)" and g: "GenerateCall j q \<in> set evs"
    by (auto simp: handle_mail_def
             split: fetch_result.splits sum.splits if_splits prod.splits option.splits)
  from answer_mail_generate[OF a g] f n show ?thesis by blast
qed

subsection \<open>The first plain-text part\<close>

lemma scan_parts_first:
  assumes "\<forall>q \<in> set pre. \<not> plain_non_attachment q" and "plain_non_attachment p"
  shows "scan_parts L (pre @ p # post) =
           (case decode_part L p of Inl e \<Rightarrow> Inl e | Inr t \<Rightarrow> Inr (Some t))"
  using assms by (induction pre) auto

lemma scan_parts_none:
  "\<forall>q \<in> set ps. \<not> plain_non_attachment q \<Longrightarrow> scan_parts L ps = Inr None"
  by (induction ps) auto

lemma scan_parts_some:
  "scan_parts L ps = Inr (Some t) \<Longrightarrow>
     \<exists>p \<in> set ps. plain_non_attachment p \<and> decode_part L p = Inr t"
  by (induction ps) (auto split: if_splits sum.splits)

subsection \<open>Runs of the examples\<close>


lemma run_blocked:
  "check_emails agent_cfg py_lib (inbox [mail_ok] always_blocked) =
     ([GenerateCall 1 (pstr ''What is 2+2?''),
       ReplyCall 1 (pstr ''bob@example.org'') (pstr ''Sum'') (Some (pstr ''<abc@host>''))
         blocked_placeholder,
       SmtpSent 1 reply_blocked, Seen 1], None)"
  by (simp add: cycle_defs subject_defs body_defs codec_defs example_defs blocked_placeholder_def)

section \<open>Marking as seen\<close>

text \<open>
  A fetched message whose iteration runs to its end is flagged once in that iteration,
  and a cycle that no exception leaves flags every message it fetched exactly once.
\<close>

lemma handle_mail_completed:
  assumes "imap_fetch E i = FetchOK msg" and "snd (handle_mail C L E i) = None"
  shows "count_list (fst (handle_mail C L E i)) (Seen i) = 1"
proof -
  from assms obtain subj where sj: "decode_subject L (subject msg) = Inr subj"
    by (auto simp: handle_mail_def split: sum.splits)
  have n: "Seen i \<notin> set evs" if "answer_mail C L E i msg subj = (evs, r)" for evs r
    using that
    by (auto simp: answer_mail_def send_reply_def
             split: sum.splits option.splits if_splits prod.splits)
  then have "count_list evs (Seen i) = 0" if "answer_mail C L E i msg subj = (evs, r)" for evs r
    using that by (simp add: count_list_0_iff)
  with assms sj show ?thesis
    by (auto simp: handle_mail_def split: prod.splits option.splits if_splits)
qed

lemma for_mail_ids_seen_once:
  assumes "for_mail_ids C L E ids = (evs, None)" and "distinct ids" and "i \<in> set ids"
    and "imap_fetch E i = FetchOK msg"
  shows "count_list evs (Seen i) = 1"
  using assms(1,2,3)
proof (induction ids arbitrary: evs)
  case Nil
  then show ?case by simp
next
  case (Cons j ids)
  obtain e1 r1 where h: "handle_mail C L E j = (e1, r1)"
    by (cases "handle_mail C L E j")
  obtain e2 r2 where t: "for_mail_ids C L E ids = (e2, r2)"
    by (cases "for_mail_ids C L E ids")
  from Cons.prems(1) h t have r: "r1 = None" "r2 = None" "evs = e1 @ e2"
    by (auto split: option.splits)
  show ?case
  proof (cases "i = j")
    case True
    from h r have "snd (handle_mail C L E i) = None" using True by simp
    from handle_mail_completed[OF assms(4) this] h True
    have c1: "count_list e1 (Seen i) = 1" by simp
    have "Seen i \<notin> set e2"
    proof
      assume "Seen i \<in> set e2"
      from for_mail_ids_events[OF t this] obtain k where
        k: "k \<in> set ids" "Seen i \<in> set (fst (handle_mail C L E k))" by blast
      obtain ek rk where hk: "handle_mail C L E k = (ek, rk)"
        by (cases "handle_mail C L E k")
      with k(2) handle_mail_tagged[OF hk, of "Seen i"] have "i = k" by simp
      with k(1) True Cons.prems(2) show False by simp
    qed
    then have "count_list e2 (Seen i) = 0" by (simp add: count_list_0_iff)
    with c1 r show ?thesis by simp
  next
    case False
    have "Seen i \<notin> set e1"
    proof
      assume "Seen i \<in> set e1"
      with handle_mail_tagged[OF h, of "Seen i"] False show False by simp
    qed
    then have c1: "count_list e1 (Seen i) = 0" by (simp add: count_list_0_iff)
    from False Cons.prems(3) have "i \<in> set ids" by simp
    with Cons.IH[OF t[unfolded r]] Cons.prems(2) have "count_list e2 (Seen i) = 1" by simp
    with c1 r show ?thesis by simp
  qed
qed

lemma completed_cycle_marks_seen_once:
  assumes "imap_login E" and "imap_search E = SearchOK ids" and "distinct ids" and "i \<in> set ids"
    and "snd (check_emails C L E) = None" and "imap_fetch E i = FetchOK msg"
  shows "count_list (fst (check_emails C L E)) (Seen i) = 1"
proof -
  from assms(1,2) have c: "check_emails C L E = for_mail_ids C L E ids"
    by (simp add: check_emails_def)
  obtain evs r where f: "for_mail_ids C L E ids = (evs, r)"
    by (cases "for_mail_ids C L E ids")
  with c assms(5) have "r = None" by simp
  with f for_mail_ids_seen_once[OF _ assms(3,4,6), of C L evs] c show ?thesis by simp
qed

text \<open>
  C1. Every fetched message is marked as seen exactly once, whatever fails while it is
  processed. The code does not do this for a message without a Subject header:
  \<open>decode_header(None)\<close> raises \<open>TypeError\<close> at line 164, the exception leaves the loop
  and is caught at line 198, and the store of line 194 is never reached. The cycle
  over a mailbox holding only such a message flags nothing.
\<close>

theorem no_subject_never_seen:
  "imap_fetch (inbox [mail_without_subject] answers_four) 1 = FetchOK mail_without_subject \<and>
   check_emails agent_cfg py_lib (inbox [mail_without_subject] answers_four)
     = ([], Some TypeError)"
  by (simp add: cycle_defs subject_defs example_defs)

section \<open>The guard against replying to oneself\<close>

text \<open>
  C2. For a fetched message whose sender address equals the configured address, the
  cycle makes no generation call, no call of \<open>send_reply\<close> and no delivery: the only
  event that can carry the id of that message is the Seen flag.
\<close>

theorem self_mail_untouched:
  assumes "imap_fetch E i = FetchOK msg" and "from_addr msg = EMAIL_ADDRESS C"
  shows "\<forall>ev \<in> set (fst (check_emails C L E)). mail_of ev = i \<longrightarrow> ev = Seen i"
proof (intro ballI impI)
  fix ev
  assume "ev \<in> set (fst (check_emails C L E))" and "mail_of ev = i"
  then have "ev \<in> set (fst (handle_mail C L E i))"
    using check_emails_events by blast
  with handle_mail_self[OF assms] show "ev = Seen i" by blast
qed

theorem self_mail_untouched_witness:
  "imap_fetch (inbox [mail_from_self] answers_four) 1 = FetchOK mail_from_self \<and>
   from_addr mail_from_self = EMAIL_ADDRESS agent_cfg \<and>
   GenerateCall 1 (pstr ''What is 2+2?'')
     \<notin> set (fst (check_emails agent_cfg py_lib (inbox [mail_from_self] answers_four))) \<and>
   SmtpSent 1 reply_four
     \<notin> set (fst (check_emails agent_cfg py_lib (inbox [mail_from_self] answers_four)))"
proof -
  have f: "imap_fetch (inbox [mail_from_self] answers_four) 1 = FetchOK mail_from_self"
    by (simp add: example_defs)
  have s: "from_addr mail_from_self = EMAIL_ADDRESS agent_cfg"
    by (simp add: example_defs)
  from self_mail_untouched[OF f s, of py_lib] have
    "GenerateCall 1 (pstr ''What is 2+2?'')
       \<notin> set (fst (check_emails agent_cfg py_lib (inbox [mail_from_self] answers_four)))"
    "SmtpSent 1 reply_four
       \<notin> set (fst (check_emails agent_cfg py_lib (inbox [mail_from_self] answers_four)))"
    by fastforce+
  with f s show ?thesis by blast
qed




section \<open>Errors and the rest of the cycle\<close>

text \<open>
  C4. No error raised while one message is processed stops the processing of the
  messages after it. The code does not do this: the loop has no handler of its own, so
  the \<open>TypeError\<close> of a message without a Subject header ends the cycle. A mailbox
  holding the well-formed message alone gets it answered and flagged; with the message
  without a subject before it, the same message is neither answered nor flagged.
\<close>

theorem no_subject_stops_cycle:
  "check_emails agent_cfg py_lib (inbox [mail_ok] answers_four) =
     ([GenerateCall 1 (pstr ''What is 2+2?''),
       ReplyCall 1 (pstr ''bob@example.org'') (pstr ''Sum'') (Some (pstr ''<abc@host>''))
         (pstr ''4''),
       SmtpSent 1 reply_four, Seen 1], None) \<and>
   check_emails agent_cfg py_lib (inbox [mail_without_subject, mail_ok] answers_four) =
     ([], Some TypeError)"
  by (simp add: cycle_defs subject_defs body_defs codec_defs example_defs)

section \<open>What body extraction returns\<close>

text \<open>
  C3. For a multipart message, extraction returns the text of the first \<open>text/plain\<close>
  part that is not marked as an attachment, and never the content of an attachment.
  The code does not do this. The comment of line 69 says that the part sought is not
  an attachment, but the test of line 70 looks for the lower-case text \<open>attachment\<close>
  anywhere in the header: an attached file whose disposition is written \<open>ATTACHMENT\<close>
  is returned as the body, and an inline text whose file name contains \<open>attachment\<close>
  is passed over for a later part.
\<close>

theorem capital_attachment_returned:
  "marked_as_attachment (Leaf capital_hdr ''notes'') \<and>
   parse_email_body py_lib capital_first = Inr (Some (pstr ''notes'')) \<and>
   content_type inline_hdr = pstr ''text/plain'' \<and>
   \<not> marked_as_attachment (Leaf inline_hdr ''Hello'') \<and>
   parse_email_body py_lib inline_first = Inr (Some (pstr ''Later''))"
  by (simp add: marked_as_attachment_def disposition_type_def lower_def strip_def isspace_def
        body_defs codec_defs example_defs)

text \<open>
  What the test of line 70 does give. For a multipart message, extraction returns the
  decoded text of the first part, in the order of \<open>walk\<close>, whose content type is
  \<open>text/plain\<close> and whose Content-Disposition header does not contain the lower-case
  text \<open>attachment\<close>; it returns \<open>None\<close> when no part passes the test; and a text it
  returns is always the decoded payload of a part that passes the test, so never of an
  HTML part. The decoded text is the payload under the declared charset, or under UTF-8
  when that decoding raises.
\<close>

theorem first_plain_part:
  assumes "is_multipart m"
  shows "(walk m = pre @ Leaf h b # post \<and> (\<forall>q \<in> set pre. \<not> plain_non_attachment q) \<and>
            plain_non_attachment (Leaf h b) \<longrightarrow>
          parse_email_body L m =
            Inr (Some (case decode_ignore L (or_default (content_charset h) (pstr ''utf-8'')) b of
                         Some t \<Rightarrow> t | None \<Rightarrow> utf8_ignore L b))) \<and>
         ((\<forall>q \<in> set (walk m). \<not> plain_non_attachment q) \<longrightarrow> parse_email_body L m = Inr None) \<and>
         (parse_email_body L m = Inr (Some t) \<longrightarrow>
            (\<exists>p \<in> set (walk m). content_type (headers p) = pstr ''text/plain'' \<and>
               \<not> contains (pstr ''attachment'') (str_of (content_disposition (headers p))) \<and>
               decode_part L p = Inr t))"
proof (intro conjI impI)
  assume a: "walk m = pre @ Leaf h b # post \<and> (\<forall>q \<in> set pre. \<not> plain_non_attachment q) \<and>
            plain_non_attachment (Leaf h b)"
  have "decode_part L (Leaf h b) =
          Inr (case decode_ignore L (or_default (content_charset h) (pstr ''utf-8'')) b of
                 Some t \<Rightarrow> t | None \<Rightarrow> utf8_ignore L b)"
    by (simp add: decode_part_def split: option.splits)
  with a assms show "parse_email_body L m =
            Inr (Some (case decode_ignore L (or_default (content_charset h) (pstr ''utf-8'')) b of
                         Some t \<Rightarrow> t | None \<Rightarrow> utf8_ignore L b))"
    by (simp add: parse_email_body_def scan_parts_first)
next
  assume "\<forall>q \<in> set (walk m). \<not> plain_non_attachment q"
  with assms show "parse_email_body L m = Inr None"
    by (simp add: parse_email_body_def scan_parts_none)
next
  assume "parse_email_body L m = Inr (Some t)"
  with assms have "scan_parts L (walk m) = Inr (Some t)"
    by (simp add: parse_email_body_def)
  from scan_parts_some[OF this]
  show "\<exists>p \<in> set (walk m). content_type (headers p) = pstr ''text/plain'' \<and>
               \<not> contains (pstr ''attachment'') (str_of (content_disposition (headers p))) \<and>
               decode_part L p = Inr t"
    by (auto simp: plain_non_attachment_def)
qed

theorem first_plain_part_witness:
  "is_multipart nested_parts \<and>
   parse_email_body py_lib nested_parts = Inr (Some (pstr ''Hello'')) \<and>
   is_multipart no_plain_parts \<and>
   parse_email_body py_lib no_plain_parts = Inr None"
proof -
  let ?alt = "Multi alternative_hdr [Leaf html_hdr ''<b>Hello</b>'', Leaf plain_hdr ''Hello'']"
  let ?pre = "[nested_parts, Leaf attached_hdr ''notes'', ?alt, Leaf html_hdr ''<b>Hello</b>'']"
  have m: "is_multipart nested_parts" by (simp add: nested_parts_def)
  have w: "walk nested_parts = ?pre @ Leaf plain_hdr ''Hello'' # []"
    by (simp add: nested_parts_def)
  have p: "\<forall>q \<in> set ?pre. \<not> plain_non_attachment q"
    by (simp add: body_defs example_defs)
  have s: "plain_non_attachment (Leaf plain_hdr ''Hello'')"
    by (simp add: body_defs example_defs)
  from first_plain_part[OF m, of ?pre plain_hdr "''Hello''" "[]" py_lib] w p s
  have "parse_email_body py_lib nested_parts =
          Inr (Some (case decode_ignore py_lib
                            (or_default (content_charset plain_hdr) (pstr ''utf-8'')) ''Hello'' of
                       Some t \<Rightarrow> t | None \<Rightarrow> utf8_ignore py_lib ''Hello''))"
    by blast
  then have r1: "parse_email_body py_lib nested_parts = Inr (Some (pstr ''Hello''))"
    by (simp add: or_default_def codec_defs example_defs)
  have m2: "is_multipart no_plain_parts" by (simp add: no_plain_parts_def)
  have n: "\<forall>q \<in> set (walk no_plain_parts). \<not> plain_non_attachment q"
    by (simp add: body_defs example_defs)
  from first_plain_part[OF m2, of _ _ _ _ py_lib] n
  have r2: "parse_email_body py_lib no_plain_parts = Inr None" by blast
  from m r1 m2 r2 show ?thesis by blast
qed

text \<open>
  C7. A single-part body is decoded with the declared charset, leniently on any decode
  failure, and extraction returns \<open>None\<close> only when decoding is impossible. The code
  does not do this for a charset name the interpreter does not know: the decode call
  of line 83 raises and line 86 returns \<open>None\<close>, although the payload is plain ASCII.
  The multipart branch, at lines 75 to 78, decodes the same part as UTF-8.
\<close>

theorem unknown_charset_gives_none:
  "\<not> is_multipart (Leaf unknown_hdr ''hi'') \<and>
   parse_email_body py_lib (Leaf unknown_hdr ''hi'') = Inr None \<and>
   parse_email_body py_lib (Multi mixed_hdr [Leaf unknown_hdr ''hi'']) = Inr (Some (pstr ''hi''))"
  by (simp add: body_defs codec_defs example_defs)

text \<open>
  What the single-part branch does give. Extraction makes one decode call, with the
  declared charset or UTF-8 when none is declared, in the mode that drops invalid
  bytes; it returns the result of that call, \<open>None\<close> whenever the call raises, and never
  raises itself. Under CPython's UTF-8, ASCII and Latin-1 codecs the call never raises,
  whatever the payload: the text returned keeps every ASCII byte of the payload in its
  place, and is the payload itself when the payload is ASCII.
\<close>

theorem single_part_lenient:
  assumes "\<not> is_multipart m"
  shows "\<exists>b. get_payload m = Some b \<and>
           parse_email_body L m =
             Inr (decode_ignore L (or_default (content_charset (headers m)) (pstr ''utf-8'')) b) \<and>
           (or_default (content_charset (headers m)) (pstr ''utf-8'') \<in> set known_charsets \<longrightarrow>
              (\<exists>t. parse_email_body (cpython other reading) m = Inr (Some t) \<and>
                 filter (\<lambda>c. c < 128) t = filter (\<lambda>c. c < 128) (map of_char b) \<and>
                 ((\<forall>c \<in> set b. of_char c < (128::nat)) \<longrightarrow> t = map of_char b)))"
proof (cases m)
  case (Leaf h b)
  have g: "parse_email_body K m =
             Inr (decode_ignore K (or_default (content_charset (headers m)) (pstr ''utf-8'')) b)"
    for K
    using Leaf by (simp add: parse_email_body_def)
  have "\<exists>t. parse_email_body (cpython other reading) m = Inr (Some t) \<and>
          filter (\<lambda>c. c < 128) t = filter (\<lambda>c. c < 128) (map of_char b) \<and>
          ((\<forall>c \<in> set b. of_char c < (128::nat)) \<longrightarrow> t = map of_char b)"
    if k: "or_default (content_charset (headers m)) (pstr ''utf-8'') \<in> set known_charsets"
    using py_decode_known[OF k, of other b] by (auto simp: g cpython_def)
  with g[of L] Leaf show ?thesis by simp
next
  case (Multi h ps)
  with assms show ?thesis by simp
qed

theorem single_part_lenient_witness:
  "\<not> is_multipart (Leaf plain_hdr [CHR ''h'', CHR ''i'', CHR 0xFF]) \<and>
   parse_email_body py_lib (Leaf plain_hdr [CHR ''h'', CHR ''i'', CHR 0xFF]) = Inr (Some (pstr ''hi'')) \<and>
   parse_email_body py_lib (Leaf plain_hdr ''What is 2+2?'') = Inr (Some (pstr ''What is 2+2?''))"
proof -
  let ?m = "Leaf plain_hdr [CHR ''h'', CHR ''i'', CHR 0xFF]"
  let ?q = "Leaf plain_hdr ''What is 2+2?''"
  have n: "\<not> is_multipart ?m" by simp
  from single_part_lenient[OF n, of py_lib]
  have r: "parse_email_body py_lib ?m = Inr (Some (pstr ''hi''))"
    by (simp add: or_default_def codec_defs example_defs)
  have n': "\<not> is_multipart ?q" by simp
  have k: "or_default (content_charset (headers ?q)) (pstr ''utf-8'') \<in> set known_charsets"
    by (simp add: or_default_def known_charsets_def example_defs)
  have a: "\<forall>c \<in> set ''What is 2+2?''. of_char c < (128::nat)" by simp
  from single_part_lenient[OF n', where L = py_lib and other = no_other_codecs
         and reading = example_readings] k a
  have r': "parse_email_body py_lib ?q = Inr (Some (pstr ''What is 2+2?''))"
    unfolding py_lib_def by auto
  from n r r' show ?thesis by blast
qed

text \<open>
  C8, as stated: the text returned by body extraction is already stripped. It is not:
  the line break that ends the body is returned with it.
\<close>

theorem counter_body_untrimmed:
  "parse_email_body py_lib (mime mail_newline) = Inr (Some (pstr ''2+2?'' @ [13, 10])) \<and>
   strip (pstr ''2+2?'' @ [13, 10]) \<noteq> pstr ''2+2?'' @ [13, 10]"
  by (simp add: body_defs codec_defs example_defs strip_def isspace_def)

text \<open>
  C8, amended: extraction returns the decoded text as it is, and line 184 strips it:
  every prompt handed to the generation client is the stripped result of extraction,
  and stripping it again changes nothing.
\<close>

theorem prompt_is_stripped_body:
  assumes "GenerateCall i q \<in> set (fst (check_emails C L E))"
  shows "strip q = q \<and>
         (\<exists>msg p. imap_fetch E i = FetchOK msg \<and> parse_email_body L (mime msg) = Inr (Some p) \<and>
            q = strip p)"
proof -
  from check_emails_events[OF assms]
  have "GenerateCall i q \<in> set (fst (handle_mail C L E i))" by simp
  from handle_mail_generate[OF this] obtain msg p where
    "imap_fetch E i = FetchOK msg" "parse_email_body L (mime msg) = Inr (Some p)" "q = strip p"
    by blast
  then show ?thesis using strip_idem by blast
qed

theorem prompt_is_stripped_body_witness:
  "GenerateCall 1 (pstr ''2+2?'')
     \<in> set (fst (check_emails agent_cfg py_lib (inbox [mail_newline] answers_four))) \<and>
   strip (pstr ''2+2?'') = pstr ''2+2?''"
proof -
  have g: "GenerateCall 1 (pstr ''2+2?'')
     \<in> set (fst (check_emails agent_cfg py_lib (inbox [mail_newline] answers_four)))"
    by (simp add: cycle_defs subject_defs body_defs codec_defs example_defs)
  from prompt_is_stripped_body[OF g] g show ?thesis by blast
qed

section \<open>Headers of a reply\<close>

text \<open>
  C5, as stated: the Subject of a composed reply equals \<open>Re: \<close> followed by the decoded
  subject. The message does not carry every assigned value unchanged: the subject
  \<open>=?utf-8?b?PT91dGYtOD9xP2hpPz0=?=\<close> decodes to the text of an encoded word, which the
  outbound message stores decoded once more.
\<close>

theorem counter_subject_decoded_again:
  "decode_subject py_lib (subject mail_encoded_twice) = Inr (pstr ''=?utf-8?q?hi?='') \<and>
   compose agent_cfg py_lib (pstr ''bob@example.org'') (pstr ''=?utf-8?q?hi?='')
       (Some (pstr ''<abc@host>'')) (pstr ''4'')
     = Inr (reply_four\<lparr>hdr_subject := pstr ''Re: hi''\<rparr>) \<and>
   pstr ''Re: hi'' \<noteq> pstr ''Re: '' @ pstr ''=?utf-8?q?hi?=''"
  by (simp add: subject_defs or_default_def compose_def codec_defs example_defs)

text \<open>
  C5, amended. For a reply composed to a message with identifier \<open>M\<close>, decoded subject
  \<open>S\<close> and sender \<open>R\<close>, lines 96 to 102 assign \<open>M\<close> to In-Reply-To and to References,
  \<open>Re: S\<close> to Subject, the configured address to From and \<open>R\<close> to To, and the message
  carries each of them as \<open>EmailMessage\<close> stores the assigned value: the value itself
  whenever the library stores it unchanged. That message is the one handed to the
  outbound transport.
\<close>

theorem reply_headers:
  assumes "compose C L R S (Some M) body = Inr out"
  shows "header_value L ''In-Reply-To'' (Some M) = Inr (hdr_in_reply_to out) \<and>
         header_value L ''References'' (Some M) = Inr (hdr_references out) \<and>
         header_value L ''Subject'' (Some (pstr ''Re: '' @ S)) = Inr (hdr_subject out) \<and>
         header_value L ''From'' (Some (EMAIL_ADDRESS C)) = Inr (hdr_from out) \<and>
         header_value L ''To'' (Some R) = Inr (hdr_to out) \<and>
         ((\<forall>(name, v) \<in> set [(''In-Reply-To'', M), (''References'', M),
                                (''Subject'', pstr ''Re: '' @ S), (''From'', EMAIL_ADDRESS C),
                                (''To'', R)]. header_value L name (Some v) = Inr v) \<longrightarrow>
            hdr_in_reply_to out = M \<and> hdr_references out = M \<and>
            hdr_subject out = pstr ''Re: '' @ S \<and> hdr_from out = EMAIL_ADDRESS C \<and>
            hdr_to out = R) \<and>
         fst (send_reply C L E i R S (Some M) body) =
           ReplyCall i R S (Some M) body # (if smtp_send E i out then [SmtpSent i out] else [])"
proof -
  from assms have h:
    "header_value L ''In-Reply-To'' (Some M) = Inr (hdr_in_reply_to out)"
    "header_value L ''References'' (Some M) = Inr (hdr_references out)"
    "header_value L ''Subject'' (Some (pstr ''Re: '' @ S)) = Inr (hdr_subject out)"
    "header_value L ''From'' (Some (EMAIL_ADDRESS C)) = Inr (hdr_from out)"
    "header_value L ''To'' (Some R) = Inr (hdr_to out)"
    by (auto simp: compose_def split: sum.splits)
  from assms have s: "fst (send_reply C L E i R S (Some M) body) =
           ReplyCall i R S (Some M) body # (if smtp_send E i out then [SmtpSent i out] else [])"
    by (simp add: send_reply_def)
  from h s show ?thesis by auto
qed

theorem reply_headers_witness:
  "compose agent_cfg py_lib (pstr ''bob@example.org'') (pstr ''Sum'') (Some (pstr ''<abc@host>''))
       (pstr ''4'') = Inr reply_four \<and>
   hdr_in_reply_to reply_four = pstr ''<abc@host>'' \<and>
   hdr_references reply_four = pstr ''<abc@host>'' \<and>
   hdr_subject reply_four = pstr ''Re: '' @ pstr ''Sum'' \<and>
   hdr_from reply_four = EMAIL_ADDRESS agent_cfg \<and>
   hdr_to reply_four = pstr ''bob@example.org'' \<and>
   fst (send_reply agent_cfg py_lib (inbox [mail_ok] answers_four) 1 (pstr ''bob@example.org'')
          (pstr ''Sum'') (Some (pstr ''<abc@host>'')) (pstr ''4''))
     = [ReplyCall 1 (pstr ''bob@example.org'') (pstr ''Sum'') (Some (pstr ''<abc@host>''))
          (pstr ''4''), SmtpSent 1 reply_four]"
proof -
  let ?R = "pstr ''bob@example.org''" and ?S = "pstr ''Sum''" and ?M = "pstr ''<abc@host>''"
  let ?E = "inbox [mail_ok] answers_four"
  have c: "compose agent_cfg py_lib ?R ?S (Some ?M) (pstr ''4'') = Inr reply_four"
    by (simp add: compose_def codec_defs example_defs)
  have v: "\<forall>(name, v) \<in> set [(''In-Reply-To'', ?M), (''References'', ?M),
                                (''Subject'', pstr ''Re: '' @ ?S),
                                (''From'', EMAIL_ADDRESS agent_cfg), (''To'', ?R)].
             header_value py_lib name (Some v) = Inr v"
    by (simp add: codec_defs example_defs)
  have d: "smtp_send ?E 1 reply_four" by (simp add: inbox_def)
  from reply_headers[OF c, of ?E 1] v d c show ?thesis by simp
qed

section \<open>Generation failures\<close>




section \<open>Plain subjects\<close>

text \<open>
  C9, as stated: decoding a subject without encoded words returns it unchanged. It does
  not for a subject that ends with a space.
\<close>

theorem counter_subject_trailing_space:
  "decode_subject py_lib (Some (Plain (pstr ''hi ''))) \<noteq> Inr (pstr ''hi '')"
  by (simp add: subject_defs)

text \<open>
  C9, amended: decoding a subject without encoded words returns it stripped, or the
  placeholder \<open>Brak tematu\<close> when nothing is left; it returns the subject unchanged
  exactly when the subject is not empty and neither starts nor ends with whitespace.
\<close>

theorem plain_subject_stripped:
  "decode_subject L (Some (Plain s)) =
     Inr (if strip s = [] then pstr ''Brak tematu'' else strip s) \<and>
   (decode_subject L (Some (Plain s)) = Inr s \<longleftrightarrow>
      s \<noteq> [] \<and> \<not> isspace (hd s) \<and> \<not> isspace (last s))"
proof -
  have d: "decode_subject L (Some (Plain s)) =
     Inr (if strip s = [] then pstr ''Brak tematu'' else strip s)"
    by (simp add: decode_subject_def decode_header_def)
  have "s \<noteq> [] \<and> \<not> isspace (hd s) \<and> \<not> isspace (last s)"
    if e: "decode_subject L (Some (Plain s)) = Inr s"
  proof (cases "strip s = []")
    case True
    with d e have "s = pstr ''Brak tematu''" by simp
    then have "strip s \<noteq> []" by (simp add: strip_def isspace_def)
    with True show ?thesis by simp
  next
    case False
    with d e have "strip s = s" by simp
    with False strip_ends[OF False] show ?thesis by simp
  qed
  moreover have "decode_subject L (Some (Plain s)) = Inr s"
    if "s \<noteq> [] \<and> \<not> isspace (hd s) \<and> \<not> isspace (last s)"
    using that d by (simp add: strip_self)
  ultimately show ?thesis using d by blast
qed

theorem plain_subject_stripped_witness:
  "decode_subject py_lib (Some (Plain (pstr ''Sum''))) = Inr (pstr ''Sum'') \<and>
   decode_subject py_lib (Some (Plain (pstr ''hi ''))) = Inr (pstr ''hi'') \<and>
   decode_subject py_lib (Some (Plain [])) = Inr (pstr ''Brak tematu'')"
proof -
  have a: "pstr ''Sum'' \<noteq> [] \<and> \<not> isspace (hd (pstr ''Sum'')) \<and> \<not> isspace (last (pstr ''Sum''))"
    by (simp add: isspace_def)
  from plain_subject_stripped[of py_lib "pstr ''Sum''"] a
  have 1: "decode_subject py_lib (Some (Plain (pstr ''Sum''))) = Inr (pstr ''Sum'')" by blast
  from plain_subject_stripped[of py_lib "pstr ''hi ''"]
  have 2: "decode_subject py_lib (Some (Plain (pstr ''hi ''))) = Inr (pstr ''hi'')"
    by (simp add: strip_def isspace_def)
  from plain_subject_stripped[of py_lib "[]"]
  have 3: "decode_subject py_lib (Some (Plain [])) = Inr (pstr ''Brak tematu'')"
    by (simp add: strip_def)
  from 1 2 3 show ?thesis by blast
qed

end
